theory Spec2Isabelle
  imports Complex_Main "HOL-Library.Sublist" "HOL-Library.Word"
begin

section \<open>Status page checker: the model of \<^verbatim>\<open>check_status.py\<close>\<close>

text \<open>
  The script checks a status page feed for incidents. Its functions are translated
  one by one. Python text is a \<open>string\<close>; one \<open>char\<close> of the model is one code point
  below 256. What the script takes from Python's standard library (the XML parser, the
  two date parsers, the HTTP transport, \<^verbatim>\<open>int()\<close>, UTF-8 decoding, the clock) is not
  code of the repository: each such call is a parameter of the function that makes it,
  so that a theorem with the parameter free holds for every behaviour of the library.
  Exceptions are values: a function that may raise returns \<open>py_exc + 'a\<close>.
\<close>

datatype py_exc =
    FeedParseError
  | FeedTooLargeError
  | HTTPError int
  | URLError
  | ValueError
  | UnicodeDecodeError
  | TypeError
  | OverflowError

text \<open>\<^verbatim>\<open>except ValueError\<close> also catches the subclass \<^verbatim>\<open>UnicodeDecodeError\<close>.\<close>

definition is_ValueError :: "py_exc \<Rightarrow> bool" where
  "is_ValueError e \<longleftrightarrow> e = ValueError \<or> e = UnicodeDecodeError"

subsection \<open>Text\<close>

text \<open>
  The class \<^verbatim>\<open>\w\<close> of a \<^verbatim>\<open>str\<close> pattern: the characters for which
  \<^verbatim>\<open>str.isalnum\<close> holds, and the underscore. Below 256 these are the ASCII letters
  and digits, the underscore, and the Latin-1 letters and numeric signs listed.
\<close>

definition is_word_char :: "char \<Rightarrow> bool" where
  "is_word_char c =
     (let n = (of_char c :: nat) in
        (48 \<le> n \<and> n \<le> 57) \<or> (65 \<le> n \<and> n \<le> 90) \<or> n = 95 \<or> (97 \<le> n \<and> n \<le> 122) \<or>
        n = 170 \<or> n = 178 \<or> n = 179 \<or> n = 181 \<or> n = 185 \<or> n = 186 \<or>
        (188 \<le> n \<and> n \<le> 190) \<or> (192 \<le> n \<and> n \<le> 214) \<or>
        (216 \<le> n \<and> n \<le> 246) \<or> (248 \<le> n \<and> n \<le> 255))"

text \<open>
  \<^verbatim>\<open>str.lower\<close>, one character at a time: the upper-case letters below 256 are
  \<open>A\<close> to \<open>Z\<close> and the code points 192 to 222 without 215; the lower-case letter
  is 32 higher, which sets the bit of value 32.
\<close>

definition lower_char :: "char \<Rightarrow> char" where
  "lower_char c =
     (let n = (of_char c :: nat) in
        if (65 \<le> n \<and> n \<le> 90) \<or> (192 \<le> n \<and> n \<le> 222 \<and> n \<noteq> 215)
        then (case c of Char b0 b1 b2 b3 b4 b5 b6 b7 \<Rightarrow> Char b0 b1 b2 b3 b4 True b6 b7)
        else c)"

definition lower :: "string \<Rightarrow> string" where
  "lower s = map lower_char s"

text \<open>\<^verbatim>\<open>pattern in status\<close> on two strings: \<open>pattern\<close> occurs in \<open>status\<close>.\<close>

fun contains :: "string \<Rightarrow> string \<Rightarrow> bool" where
  "contains [] p = (p = [])"
| "contains (c # cs) p = (prefix p (c # cs) \<or> contains cs p)"

subsection \<open>Incident\<close>

record Incident =
  title :: string
  link :: string
  status :: string
  published :: string

subsection \<open>FeedCache\<close>

text \<open>
  The cache directory holds, for a key, the file \<^verbatim>\<open>{key}.xml\<close> with the content and
  the file \<^verbatim>\<open>{key}.json\<close> with the metadata; the two suffixes differ, so the
  directory is two maps from keys, named after the two path functions. Keys name files
  directly inside the directory. The metadata file holds what \<^verbatim>\<open>json.dumps\<close> wrote and
  \<^verbatim>\<open>json.loads\<close> reads back unchanged. Times are the readings of \<^verbatim>\<open>time.time()\<close>, in
  seconds, without rounding.
\<close>

record cache_meta =
  meta_etag :: "string option"
  meta_fetched_at :: real

record cache_entry =
  content :: string
  etag :: "string option"
  fetched_at :: real

record FeedCache =
  content_path :: "string \<rightharpoonup> string"
  meta_path :: "string \<rightharpoonup> cache_meta"

text \<open>\<^verbatim>\<open>FeedCache(cache_dir)\<close> on a directory that does not exist yet.\<close>

definition FeedCache_init :: FeedCache where
  "FeedCache_init = \<lparr>content_path = Map.empty, meta_path = Map.empty\<rparr>"

text \<open>
  \<^verbatim>\<open>Path.write_text\<close> and \<^verbatim>\<open>Path.read_text\<close> open the file in text mode with
  \<^verbatim>\<open>newline=None\<close>. On a POSIX system writing leaves the text as it is; reading
  translates the line ends \<^verbatim>\<open>\r\n\<close> and \<^verbatim>\<open>\r\<close> into \<^verbatim>\<open>\n\<close>.
\<close>

fun universal_newlines :: "string \<Rightarrow> string" where
  "universal_newlines [] = []"
| "universal_newlines [c] = [if c = CHR 0x0D then CHR 0x0A else c]"
| "universal_newlines (c # d # ds) =
     (if c = CHR 0x0D \<and> d = CHR 0x0A then CHR 0x0A # universal_newlines ds
      else if c = CHR 0x0D then CHR 0x0A # universal_newlines (d # ds)
      else c # universal_newlines (d # ds))"

definition read_text :: "string \<Rightarrow> string" where
  "read_text file = universal_newlines file"

definition FeedCache_get :: "FeedCache \<Rightarrow> string \<Rightarrow> cache_entry option" where
  "FeedCache_get cache key =
     (case content_path cache key of
        None \<Rightarrow> None
      | Some file \<Rightarrow>
          (case meta_path cache key of
             None \<Rightarrow> None
           | Some meta \<Rightarrow>
               Some \<lparr>content = read_text file, etag = meta_etag meta,
                     fetched_at = meta_fetched_at meta\<rparr>))"

definition get_if_fresh :: "real \<Rightarrow> FeedCache \<Rightarrow> string \<Rightarrow> int \<Rightarrow> cache_entry option" where
  "get_if_fresh now cache key max_age_seconds =
     (case FeedCache_get cache key of
        None \<Rightarrow> None
      | Some cached \<Rightarrow>
          if now - fetched_at cached \<ge> of_int max_age_seconds then None else Some cached)"

definition FeedCache_store ::
  "real \<Rightarrow> FeedCache \<Rightarrow> string \<Rightarrow> string \<Rightarrow> string option \<Rightarrow> FeedCache" where
  "FeedCache_store now cache key text e =
     cache\<lparr>content_path := (content_path cache)(key \<mapsto> text),
           meta_path := (meta_path cache)(key \<mapsto> \<lparr>meta_etag = e, meta_fetched_at = now\<rparr>)\<rparr>"

definition is_fresh :: "real \<Rightarrow> FeedCache \<Rightarrow> string \<Rightarrow> int \<Rightarrow> bool" where
  "is_fresh now cache key max_age_seconds =
     (case meta_path cache key of
        None \<Rightarrow> False
      | Some meta \<Rightarrow> now - meta_fetched_at meta < of_int max_age_seconds)"

text \<open>
  Every key has both of its files or neither: the state of a directory that only
  \<open>FeedCache_store\<close> has written to.
\<close>

definition cache_paired :: "FeedCache \<Rightarrow> bool" where
  "cache_paired cache \<longleftrightarrow> dom (content_path cache) = dom (meta_path cache)"

subsection \<open>The status keyword of an entry\<close>

text \<open>
  \<^verbatim>\<open>re.search(r"<strong>(\w+)</strong>", html_content)\<close> tries the pattern at every
  position from the left. At one position: the opening tag, then as many word
  characters as there are (\<^verbatim>\<open>\w+\<close> is greedy, and at least one), then the closing tag.
\<close>

definition match_here :: "string \<Rightarrow> string option" where
  "match_here s =
     (if prefix ''<strong>'' s then
        (let r = drop 8 s; w = takeWhile is_word_char r; rest = dropWhile is_word_char r
         in if w \<noteq> [] \<and> prefix ''</strong>'' rest then Some w else None)
      else None)"

fun re_search :: "string \<Rightarrow> string option" where
  "re_search [] = match_here []"
| "re_search (c # cs) =
     (case match_here (c # cs) of Some w \<Rightarrow> Some w | None \<Rightarrow> re_search cs)"

definition extract_status_from_html :: "string \<Rightarrow> string" where
  "extract_status_from_html html_content =
     (case re_search html_content of Some w \<Rightarrow> w | None \<Rightarrow> ''Unknown'')"

text \<open>
  What the pattern denotes, without a search order: at position \<open>i\<close> of \<open>s\<close> stands
  the opening tag, the non-empty run \<open>w\<close> of word characters, and the closing tag.
\<close>

definition bold_run :: "string \<Rightarrow> nat \<Rightarrow> string \<Rightarrow> bool" where
  "bold_run s i w \<longleftrightarrow>
     i \<le> length s \<and> w \<noteq> [] \<and> list_all is_word_char w \<and>
     prefix (''<strong>'' @ w @ ''</strong>'') (drop i s)"

subsection \<open>Feeds as element trees\<close>

text \<open>
  \<^verbatim>\<open>ET.fromstring\<close> is the library's XML parser. It is a parameter \<open>fromstring\<close>
  of the two feed parsers: \<open>None\<close> is its \<^verbatim>\<open>ParseError\<close>, and a text is
  well-formed when it answers \<open>Some tree\<close>. An element has a tag (with the namespace
  in braces, as the library writes it), attributes, an optional text and its children
  in document order.
\<close>

datatype element =
  Element (elem_tag: string) (elem_attrib: "(string \<times> string) list")
    (elem_text: "string option") (elem_children: "element list")

definition atom_ns :: string where
  "atom_ns = ''{http://www.w3.org/2005/Atom}''"

text \<open>\<^verbatim>\<open>elem.findall(tag)\<close> and \<^verbatim>\<open>elem.find(tag)\<close>: the children with that tag, the first of them.\<close>

definition findall :: "string \<Rightarrow> element \<Rightarrow> element list" where
  "findall t e = filter (\<lambda>c. elem_tag c = t) (elem_children e)"

definition find_elem :: "string \<Rightarrow> element \<Rightarrow> element option" where
  "find_elem t e = (case findall t e of [] \<Rightarrow> None | c # _ \<Rightarrow> Some c)"

text \<open>\<^verbatim>\<open>elem.find("atom:link[@rel='alternate']", ns)\<close>.\<close>

definition find_alternate_link :: "element \<Rightarrow> element option" where
  "find_alternate_link e =
     (case filter (\<lambda>c. elem_tag c = atom_ns @ ''link'' \<and>
                        map_of (elem_attrib c) ''rel'' = Some ''alternate'')
             (elem_children e)
      of [] \<Rightarrow> None | c # _ \<Rightarrow> Some c)"

text \<open>\<^verbatim>\<open>root.findall(".//item")\<close>: the descendants of the root, without the root, in document order.\<close>

fun descendants :: "element \<Rightarrow> element list" where
  "descendants (Element t a x cs) = concat (map (\<lambda>c. c # descendants c) cs)"

definition findall_items :: "element \<Rightarrow> element list" where
  "findall_items tree = filter (\<lambda>c. elem_tag c = ''item'') (descendants tree)"

text \<open>\<^verbatim>\<open>(e.text or "") if e is not None else ""\<close>.\<close>

definition text_or_empty :: "element option \<Rightarrow> string" where
  "text_or_empty e =
     (case e of None \<Rightarrow> [] | Some x \<Rightarrow> (case elem_text x of None \<Rightarrow> [] | Some s \<Rightarrow> s))"

definition atom_incident :: "element \<Rightarrow> Incident" where
  "atom_incident entry =
     (let title_elem = find_elem (atom_ns @ ''title'') entry;
          link_elem = find_alternate_link entry;
          published_elem = find_elem (atom_ns @ ''published'') entry;
          content_elem = find_elem (atom_ns @ ''content'') entry
      in \<lparr>title = text_or_empty title_elem,
          link = (case link_elem of None \<Rightarrow> []
                  | Some l \<Rightarrow> (case map_of (elem_attrib l) ''href'' of None \<Rightarrow> [] | Some h \<Rightarrow> h)),
          status = (case content_elem of None \<Rightarrow> ''Unknown''
                    | Some c \<Rightarrow> extract_status_from_html (text_or_empty (Some c))),
          published = text_or_empty published_elem\<rparr>)"

definition rss_incident :: "element \<Rightarrow> Incident" where
  "rss_incident item =
     (let title_elem = find_elem ''title'' item;
          link_elem = find_elem ''link'' item;
          description = find_elem ''description'' item;
          pub_date = find_elem ''pubDate'' item
      in \<lparr>title = text_or_empty title_elem,
          link = text_or_empty link_elem,
          status = (case description of None \<Rightarrow> ''Unknown''
                    | Some d \<Rightarrow> extract_status_from_html (text_or_empty (Some d))),
          published = text_or_empty pub_date\<rparr>)"


text \<open>
  The loop of both parsers: \<open>incidents\<close> is the list built so far; the loop leaves
  at the first element it reaches with \<^verbatim>\<open>len(incidents) >= max_entries\<close>.
\<close>

fun collect :: "(element \<Rightarrow> Incident) \<Rightarrow> int \<Rightarrow> element list \<Rightarrow> Incident list \<Rightarrow> Incident list" where
  "collect mk max_entries [] incidents = incidents"
| "collect mk max_entries (e # es) incidents =
     (if int (length incidents) \<ge> max_entries then incidents
      else collect mk max_entries es (incidents @ [mk e]))"

definition parse_atom_feed ::
  "(string \<Rightarrow> element option) \<Rightarrow> string \<Rightarrow> int \<Rightarrow> py_exc + Incident list" where
  "parse_atom_feed fromstring text max_entries =
     (case fromstring text of
        None \<Rightarrow> Inl FeedParseError
      | Some tree \<Rightarrow> Inr (collect atom_incident max_entries (findall (atom_ns @ ''entry'') tree) []))"

definition parse_rss_feed ::
  "(string \<Rightarrow> element option) \<Rightarrow> string \<Rightarrow> int \<Rightarrow> py_exc + Incident list" where
  "parse_rss_feed fromstring text max_entries =
     (case fromstring text of
        None \<Rightarrow> Inl FeedParseError
      | Some tree \<Rightarrow> Inr (collect rss_incident max_entries (findall_items tree) []))"

text \<open>
  A table of the parser's answers on the texts of the evaluations below: an Atom feed
  with three empty entries and the RSS feed without items of the test
  \<^verbatim>\<open>test_rss_feed_returns_empty_list_for_no_items\<close> are well-formed; the empty text
  and the text \<^verbatim>\<open>not valid xml <<<<\<close> of the tests are not. The table is used on
  these texts only.
\<close>

definition three_entries :: string where
  "three_entries =
     ''<feed xmlns=\"http://www.w3.org/2005/Atom\"><entry/><entry/><entry/></feed>''"

definition fromstring_sample :: "string \<Rightarrow> element option" where
  "fromstring_sample s =
     (if s = three_entries then
        Some (Element (atom_ns @ ''feed'') [] None
                [Element (atom_ns @ ''entry'') [] None [],
                 Element (atom_ns @ ''entry'') [] None [],
                 Element (atom_ns @ ''entry'') [] None []])
      else if s = ''<rss><channel></channel></rss>'' then
        Some (Element ''rss'' [] None [Element ''channel'' [] None []])
      else None)"

subsection \<open>Services\<close>

text \<open>
  The services mapping is a dictionary: an association list in insertion order, its
  keys distinct. A service is the dictionary of one table of the configuration file.
\<close>

record service =
  name :: string
  feed :: string
  feed_type :: "string option"
  aliases :: "string list option"

text \<open>\<^verbatim>\<open>service.get("aliases", [])\<close>.\<close>

definition get_aliases :: "service \<Rightarrow> string list" where
  "get_aliases svc = (case aliases svc of None \<Rightarrow> [] | Some as \<Rightarrow> as)"

fun find_alias :: "string \<Rightarrow> (string \<times> service) list \<Rightarrow> (string \<times> service) option" where
  "find_alias query [] = None"
| "find_alias query ((key, svc) # rest) =
     (if query \<in> set (get_aliases svc) then Some (key, svc) else find_alias query rest)"

definition find_service :: "(string \<times> service) list \<Rightarrow> string \<Rightarrow> (string \<times> service) option" where
  "find_service services query =
     (let query = lower query in
        case map_of services query of
          Some svc \<Rightarrow> Some (query, svc)
        | None \<Rightarrow> find_alias query services)"

text \<open>
  Two services as the configuration file of the repository lists them, and one whose
  key and alias are written with capitals.
\<close>

definition claude_svc :: service where
  "claude_svc = \<lparr>name = ''Claude'', feed = ''https://status.claude.com/history.atom'',
                 feed_type = Some ''atom'', aliases = Some [''anthropic'']\<rparr>"

definition github_svc :: service where
  "github_svc = \<lparr>name = ''GitHub'', feed = ''https://www.githubstatus.com/history.atom'',
                 feed_type = Some ''atom'', aliases = Some [''gh'']\<rparr>"

definition capitals_svc :: service where
  "capitals_svc = \<lparr>name = ''GitHub'', feed = ''https://www.githubstatus.com/history.atom'',
                   feed_type = Some ''atom'', aliases = Some [''GH'']\<rparr>"

subsection \<open>Timestamps\<close>

text \<open>
  A \<^verbatim>\<open>datetime\<close> is timezone-aware or naive. \<open>Aware t\<close> is the instant \<open>t\<close>
  microseconds after the epoch; \<open>Naive t\<close> is a wall-clock reading without an
  offset, \<open>t\<close> microseconds after the reading \<^verbatim>\<open>1970-01-01 00:00:00\<close>. The two
  parsers \<^verbatim>\<open>datetime.fromisoformat\<close> and \<^verbatim>\<open>email.utils.parsedate_to_datetime\<close> are
  parameters; each answers a \<open>datetime\<close> or raises.
\<close>

datatype datetime = Aware int | Naive int

text \<open>
  \<^verbatim>\<open>if timestamp.endswith("Z"): timestamp = timestamp[:-1] + "+00:00"\<close>, on a text
  that is not empty. The variable is assigned, so the second parser gets the changed
  text as well.
\<close>

definition handle_Z_suffix :: "string \<Rightarrow> string" where
  "handle_Z_suffix timestamp =
     (if last timestamp = CHR ''Z'' then butlast timestamp @ ''+00:00'' else timestamp)"

definition parse_timestamp ::
  "(string \<Rightarrow> py_exc + datetime) \<Rightarrow> (string \<Rightarrow> py_exc + datetime) \<Rightarrow> string
     \<Rightarrow> py_exc + datetime option" where
  "parse_timestamp fromisoformat parsedate_to_datetime timestamp =
     (if timestamp = [] then Inr None
      else
        (let timestamp = handle_Z_suffix timestamp
         in case fromisoformat timestamp of
              Inr d \<Rightarrow> Inr (Some d)
            | Inl e \<Rightarrow>
                if is_ValueError e then
                  (case parsedate_to_datetime timestamp of
                     Inr d \<Rightarrow> Inr (Some d)
                   | Inl e' \<Rightarrow> if is_ValueError e' \<or> e' = TypeError then Inr None else Inl e')
                else Inl e))"

text \<open>
  \<open>now\<close> is the reading of \<^verbatim>\<open>datetime.now(timezone.utc)\<close>, an aware instant in
  microseconds. Subtracting a naive \<^verbatim>\<open>datetime\<close> from it raises \<^verbatim>\<open>TypeError\<close>.
  \<^verbatim>\<open>age.total_seconds() < hours * 3600\<close> is compared in microseconds, without the
  rounding of the division to a float.
\<close>

definition is_recent_incident ::
  "(string \<Rightarrow> py_exc + datetime) \<Rightarrow> (string \<Rightarrow> py_exc + datetime) \<Rightarrow> int \<Rightarrow> Incident \<Rightarrow> int
     \<Rightarrow> py_exc + bool" where
  "is_recent_incident fromisoformat parsedate_to_datetime now incident hours =
     (case parse_timestamp fromisoformat parsedate_to_datetime (published incident) of
        Inl e \<Rightarrow> Inl e
      | Inr None \<Rightarrow> Inr False
      | Inr (Some (Naive w)) \<Rightarrow> Inl TypeError
      | Inr (Some (Aware t)) \<Rightarrow> Inr (now - t < hours * 3600 * 1000000))"

definition RESOLVED_PATTERNS :: "string list" where
  "RESOLVED_PATTERNS =
     [''resolved'', ''fixed'', ''closed'', ''completed'', ''recovered'', ''restored'',
      ''back to normal'', ''fully operational'']"

definition is_likely_resolved :: "Incident \<Rightarrow> bool" where
  "is_likely_resolved incident =
     (let st = lower (status incident) in list_ex (\<lambda>pattern. contains st pattern) RESOLVED_PATTERNS)"

definition is_likely_active ::
  "(string \<Rightarrow> py_exc + datetime) \<Rightarrow> (string \<Rightarrow> py_exc + datetime) \<Rightarrow> int \<Rightarrow> Incident \<Rightarrow> int
     \<Rightarrow> py_exc + bool" where
  "is_likely_active fromisoformat parsedate_to_datetime now incident recent_hours =
     (case is_recent_incident fromisoformat parsedate_to_datetime now incident recent_hours of
        Inl e \<Rightarrow> Inl e
      | Inr recent \<Rightarrow> Inr (recent \<and> \<not> is_likely_resolved incident))"

text \<open>
  Tables of the answers of the two library parsers on the texts of the evaluations
  below, as CPython 3.11 gives them; the instant is 2026-02-04 17:06:50 UTC. A text
  without an offset, and an RFC 822 date with the zone \<^verbatim>\<open>-0000\<close>, give a naive
  \<^verbatim>\<open>datetime\<close>; a zone of 24 digits makes \<^verbatim>\<open>parsedate_to_datetime\<close> raise
  \<^verbatim>\<open>OverflowError\<close>. The tables are used on these texts and on a text that is no
  date at all.
\<close>

definition fromisoformat_sample :: "string \<Rightarrow> py_exc + datetime" where
  "fromisoformat_sample s =
     (if s = ''2026-02-04T17:06:50+00:00'' then Inr (Aware 1770224810000000)
      else if s = ''2026-02-04T17:06:50'' then Inr (Naive 1770224810000000)
      else Inl ValueError)"

definition parsedate_sample :: "string \<Rightarrow> py_exc + datetime" where
  "parsedate_sample s =
     (if s = ''Wed, 04 Feb 2026 17:06:50 +0000'' then Inr (Aware 1770224810000000)
      else if s = ''Wed, 04 Feb 2026 17:06:50 -0000'' then Inr (Naive 1770224810000000)
      else if s = ''Wed, 04 Feb 2026 17:06:50 +999999999999999999999999'' then Inl OverflowError
      else Inl ValueError)"

subsection \<open>Fetching\<close>

text \<open>
  The transport is the parameter \<open>urlopen\<close>: it answers a request with a response or
  raises. A response has its headers and the bytes of its body; \<^verbatim>\<open>response.read(amt)\<close>
  gives the first \<open>amt\<close> bytes of the body, all of it when \<open>amt\<close> is negative.
  \<open>to_int\<close> is \<^verbatim>\<open>int()\<close> on a header value (\<open>None\<close> is its \<^verbatim>\<open>ValueError\<close>),
  \<open>decode\<close> is \<^verbatim>\<open>bytes.decode("utf-8")\<close> (\<open>None\<close> is its \<^verbatim>\<open>UnicodeDecodeError\<close>).
  \<open>t_fresh\<close> and \<open>t_store\<close> are the readings of the clock in \<open>get_if_fresh\<close> and
  in \<open>FeedCache_store\<close>. The function returns its result and the cache as it leaves it.
\<close>

record request =
  req_url :: string
  req_headers :: "(string \<times> string) list"

record response =
  resp_headers :: "string \<rightharpoonup> string"
  resp_body :: "8 word list"

definition response_read :: "response \<Rightarrow> int \<Rightarrow> 8 word list" where
  "response_read r amt = (if amt < 0 then resp_body r else take (nat amt) (resp_body r))"

definition MAX_FEED_SIZE_BYTES :: int where
  "MAX_FEED_SIZE_BYTES = 1024 * 1024"

text \<open>\<^verbatim>\<open>key = cache_key or url\<close>: an absent and an empty \<open>cache_key\<close> both give the URL.\<close>

definition resolve_key :: "string option \<Rightarrow> string \<Rightarrow> string" where
  "resolve_key cache_key url =
     (case cache_key of None \<Rightarrow> url | Some k \<Rightarrow> if k = [] then url else k)"

text \<open>\<open>cached_etag\<close>: set when there is a cache, an entry, and a non-empty ETag in it.\<close>

definition cached_etag_of :: "FeedCache option \<Rightarrow> string \<Rightarrow> string option" where
  "cached_etag_of cache key =
     (case cache of
        None \<Rightarrow> None
      | Some c \<Rightarrow>
          (case FeedCache_get c key of
             None \<Rightarrow> None
           | Some cached \<Rightarrow>
               (case etag cached of None \<Rightarrow> None | Some t \<Rightarrow> if t = [] then None else Some t)))"

definition build_request :: "string \<Rightarrow> string option \<Rightarrow> request" where
  "build_request url cached_etag =
     \<lparr>req_url = url,
      req_headers = (''User-Agent'', ''status-page-checker/1.0'') #
        (case cached_etag of None \<Rightarrow> [] | Some t \<Rightarrow> [(''If-None-Match'', t)])\<rparr>"

text \<open>\<^verbatim>\<open>content_length and int(content_length) > max_size_bytes\<close>.\<close>

definition content_length_exceeds ::
  "(string \<Rightarrow> int option) \<Rightarrow> string option \<Rightarrow> int \<Rightarrow> py_exc + bool" where
  "content_length_exceeds to_int content_length max_size_bytes =
     (case content_length of
        None \<Rightarrow> Inr False
      | Some s \<Rightarrow>
          if s = [] then Inr False
          else (case to_int s of None \<Rightarrow> Inl ValueError | Some n \<Rightarrow> Inr (n > max_size_bytes)))"

definition fetch_feed ::
  "(request \<Rightarrow> py_exc + response) \<Rightarrow> (string \<Rightarrow> int option) \<Rightarrow> (8 word list \<Rightarrow> string option)
     \<Rightarrow> real \<Rightarrow> real \<Rightarrow> string \<Rightarrow> FeedCache option \<Rightarrow> string option \<Rightarrow> int \<Rightarrow> int
     \<Rightarrow> (py_exc + string) \<times> FeedCache option" where
  "fetch_feed urlopen to_int decode t_fresh t_store url cache cache_key max_age_seconds max_size_bytes =
     (let key = resolve_key cache_key url;
          fresh = (case cache of None \<Rightarrow> None
                   | Some c \<Rightarrow> get_if_fresh t_fresh c key max_age_seconds)
      in case fresh of
           Some f \<Rightarrow> (Inr (content f), cache)
         | None \<Rightarrow>
            (let cached_etag = cached_etag_of cache key in
             case urlopen (build_request url cached_etag) of
               Inr response \<Rightarrow>
                 (case content_length_exceeds to_int (resp_headers response ''Content-Length'')
                         max_size_bytes of
                    Inl e \<Rightarrow> (Inl e, cache)
                  | Inr True \<Rightarrow> (Inl FeedTooLargeError, cache)
                  | Inr False \<Rightarrow>
                     (let content_bytes = response_read response (max_size_bytes + 1) in
                      if int (length content_bytes) > max_size_bytes
                      then (Inl FeedTooLargeError, cache)
                      else (case decode content_bytes of
                              None \<Rightarrow> (Inl UnicodeDecodeError, cache)
                            | Some text \<Rightarrow>
                                (Inr text,
                                 (case cache of
                                    None \<Rightarrow> None
                                  | Some c \<Rightarrow>
                                      Some (FeedCache_store t_store c key text
                                              (resp_headers response ''ETag'')))))))
             | Inl (HTTPError code) \<Rightarrow>
                 (if code = 304 then
                    (case cache of
                       None \<Rightarrow> (Inl (HTTPError code), cache)
                     | Some c \<Rightarrow>
                         (case FeedCache_get c key of
                            Some cached \<Rightarrow>
                              (Inr (content cached),
                               Some (FeedCache_store t_store c key (content cached) cached_etag))
                          | None \<Rightarrow> (Inl (HTTPError code), cache)))
                  else (Inl (HTTPError code), cache))
             | Inl e \<Rightarrow> (Inl e, cache)))"

text \<open>
  For the evaluations below: \<^verbatim>\<open>int()\<close> on one header value; a response that declares
  2000000 bytes; a response of three bytes without a declared length; and a cache whose
  entry for the key \<^verbatim>\<open>test\<close> was stored at the clock reading 0.
\<close>

definition to_int_sample :: "string \<Rightarrow> int option" where
  "to_int_sample s = (if s = ''2000000'' then Some 2000000 else None)"



definition stale_cache :: FeedCache where
  "stale_cache = FeedCache_store 0 FeedCache_init ''test'' ''<feed>cached</feed>'' (Some ''abc123'')"

section \<open>Properties\<close>

subsection \<open>The status keyword\<close>

lemma lt_not_word: "\<not> is_word_char CHR ''<''"
  by (simp add: is_word_char_def)

lemma takeWhile_word_run:
  assumes "list_all is_word_char w"
  shows "takeWhile is_word_char (w @ CHR ''<'' # t) = w"
    and "dropWhile is_word_char (w @ CHR ''<'' # t) = CHR ''<'' # t"
  using assms lt_not_word by (induction w) auto

lemma match_here_iff: "match_here s = Some w \<longleftrightarrow> bold_run s 0 w"
proof
  assume m: "match_here s = Some w"
  then have p: "prefix ''<strong>'' s"
    by (simp add: match_here_def split: if_splits)
  then obtain r where s: "s = ''<strong>'' @ r"
    by (auto simp: prefix_def)
  from m s have w: "w = takeWhile is_word_char r" "w \<noteq> []"
    and c: "prefix ''</strong>'' (dropWhile is_word_char r)"
    by (auto simp: match_here_def Let_def split: if_splits)
  from c obtain t where "dropWhile is_word_char r = ''</strong>'' @ t"
    by (auto simp: prefix_def)
  with w(1) have r: "r = w @ ''</strong>'' @ t"
    by (metis takeWhile_dropWhile_id)
  have "list_all is_word_char w"
    unfolding w(1) list_all_iff by (meson set_takeWhileD)
  moreover have "prefix (''<strong>'' @ w @ ''</strong>'') (''<strong>'' @ w @ ''</strong>'' @ t)"
    by (simp add: prefix_def)
  ultimately show "bold_run s 0 w"
    unfolding bold_run_def using \<open>w \<noteq> []\<close> s r by force
next
  assume "bold_run s 0 w"
  then obtain t where s: "s = ''<strong>'' @ w @ ''</strong>'' @ t"
    and w: "w \<noteq> []" "list_all is_word_char w"
    by (auto simp: bold_run_def prefix_def)
  have "drop 8 s = w @ CHR ''<'' # (''/strong>'' @ t)"
    using s by simp
  then show "match_here s = Some w"
    using s w takeWhile_word_run[OF w(2), of "''/strong>'' @ t"]
    by (simp add: match_here_def)
qed

lemma bold_run_Cons: "bold_run (c # cs) (Suc i) w \<longleftrightarrow> bold_run cs i w"
  by (simp add: bold_run_def)

lemma re_search_None: "re_search s = None \<longleftrightarrow> (\<forall>i w. \<not> bold_run s i w)"
proof (induction s)
  case Nil
  show ?case
    by (simp add: match_here_def bold_run_def)
next
  case (Cons c cs)
  show ?case
  proof (cases "match_here (c # cs)")
    case None
    then have n0: "\<And>w. \<not> bold_run (c # cs) 0 w"
      by (metis match_here_iff option.distinct(1))
    have "(\<forall>i w. \<not> bold_run (c # cs) i w) \<longleftrightarrow> (\<forall>i w. \<not> bold_run cs i w)"
    proof
      assume "\<forall>i w. \<not> bold_run (c # cs) i w"
      then show "\<forall>i w. \<not> bold_run cs i w" using bold_run_Cons by blast
    next
      assume a: "\<forall>i w. \<not> bold_run cs i w"
      show "\<forall>i w. \<not> bold_run (c # cs) i w"
      proof (intro allI)
        fix i w show "\<not> bold_run (c # cs) i w"
          using n0 a bold_run_Cons by (cases i) auto
      qed
    qed
    with None Cons show ?thesis by simp
  next
    case (Some w)
    then have "bold_run (c # cs) 0 w" by (simp add: match_here_iff)
    then have "\<not> (\<forall>i w. \<not> bold_run (c # cs) i w)" by blast
    with Some show ?thesis by simp
  qed
qed

lemma re_search_Some:
  "re_search s = Some w \<longleftrightarrow>
     (\<exists>i. bold_run s i w \<and> (\<forall>j<i. \<forall>w'. \<not> bold_run s j w'))"
proof (induction s)
  case Nil
  show ?case by (simp add: match_here_def bold_run_def)
next
  case (Cons c cs)
  show ?case
  proof (cases "match_here (c # cs)")
    case None
    then have n0: "\<And>w. \<not> bold_run (c # cs) 0 w"
      by (metis match_here_iff option.distinct(1))
    have "(\<exists>i. bold_run (c # cs) i w \<and> (\<forall>j<i. \<forall>w'. \<not> bold_run (c # cs) j w'))
        \<longleftrightarrow> (\<exists>i. bold_run cs i w \<and> (\<forall>j<i. \<forall>w'. \<not> bold_run cs j w'))" (is "?L \<longleftrightarrow> ?R")
    proof
      assume ?L
      then obtain i where i: "bold_run (c # cs) i w" "\<forall>j<i. \<forall>w'. \<not> bold_run (c # cs) j w'"
        by blast
      with n0 obtain k where k: "i = Suc k" by (cases i) auto
      have "bold_run cs k w" using i k bold_run_Cons by simp
      moreover have "\<forall>j<k. \<forall>w'. \<not> bold_run cs j w'"
        using i(2) k bold_run_Cons by (metis Suc_less_eq)
      ultimately show ?R by blast
    next
      assume ?R
      then obtain k where k: "bold_run cs k w" "\<forall>j<k. \<forall>w'. \<not> bold_run cs j w'"
        by blast
      have "bold_run (c # cs) (Suc k) w" using k bold_run_Cons by simp
      moreover have "\<forall>j<Suc k. \<forall>w'. \<not> bold_run (c # cs) j w'"
      proof (intro allI impI)
        fix j w' assume "j < Suc k"
        then show "\<not> bold_run (c # cs) j w'"
          using n0 k(2) bold_run_Cons by (cases j) auto
      qed
      ultimately show ?L by blast
    qed
    with None Cons show ?thesis by simp
  next
    case (Some v)
    then have v: "bold_run (c # cs) 0 v" by (simp add: match_here_iff)
    have u: "\<And>w'. bold_run (c # cs) 0 w' \<Longrightarrow> w' = v"
      using Some match_here_iff by (metis option.inject)
    have "(\<exists>i. bold_run (c # cs) i w \<and> (\<forall>j<i. \<forall>w'. \<not> bold_run (c # cs) j w')) \<longleftrightarrow> w = v"
    proof
      assume "\<exists>i. bold_run (c # cs) i w \<and> (\<forall>j<i. \<forall>w'. \<not> bold_run (c # cs) j w')"
      then obtain i where i: "bold_run (c # cs) i w" "\<forall>j<i. \<forall>w'. \<not> bold_run (c # cs) j w'"
        by blast
      have "i = 0" using i(2) v by (cases i) auto
      with i u show "w = v" by simp
    next
      assume "w = v"
      with v show "\<exists>i. bold_run (c # cs) i w \<and> (\<forall>j<i. \<forall>w'. \<not> bold_run (c # cs) j w')"
        by (intro exI[of _ 0]) simp
    qed
    with Some show ?thesis by auto
  qed
qed

text \<open>
  C1. For every input string, \<open>extract_status_from_html\<close> returns the inner word of the
  first bold run of the string: the run \<^verbatim>\<open><strong>w</strong>\<close>, with \<open>w\<close> one or more
  word characters, that starts at the leftmost position at which such a run starts.
  Runs further to the right are ignored. If the string has no such run, and so if it is
  empty, the result is the sentinel \<^verbatim>\<open>Unknown\<close>. The pattern of the code decides what
  a run is: the content between the two tags is a single word.
\<close>

theorem extract_status_first_bold_run:
  "(\<forall>i w. bold_run s i w \<and> (\<forall>j<i. \<forall>w'. \<not> bold_run s j w') \<longrightarrow> extract_status_from_html s = w)
   \<and> ((\<forall>i w. \<not> bold_run s i w) \<longrightarrow> extract_status_from_html s = ''Unknown'')
   \<and> extract_status_from_html [] = ''Unknown''"
proof (intro conjI allI impI)
  fix i w assume "bold_run s i w \<and> (\<forall>j<i. \<forall>w'. \<not> bold_run s j w')"
  then have "re_search s = Some w" using re_search_Some by blast
  then show "extract_status_from_html s = w" by (simp add: extract_status_from_html_def)
next
  assume "\<forall>i w. \<not> bold_run s i w"
  then have "re_search s = None" using re_search_None by blast
  then show "extract_status_from_html s = ''Unknown''" by (simp add: extract_status_from_html_def)
next
  show "extract_status_from_html [] = ''Unknown''"
    by (simp add: extract_status_from_html_def match_here_def)
qed

theorem extract_status_first_bold_run_witness:
  "bold_run ''<strong>Investigating</strong> then <strong>Resolved</strong>'' 0 ''Investigating''
   \<and> extract_status_from_html ''<strong>Investigating</strong> then <strong>Resolved</strong>''
       = ''Investigating''
   \<and> (\<forall>i w. \<not> bold_run [] i w) \<and> extract_status_from_html [] = ''Unknown''"
proof -
  let ?s = "''<strong>Investigating</strong> then <strong>Resolved</strong>''"
  have b: "bold_run ?s 0 ''Investigating''"
    by (simp add: bold_run_def is_word_char_def)
  have n: "\<forall>i w. \<not> bold_run [] i w"
    by (simp add: bold_run_def)
  from extract_status_first_bold_run[of ?s] b
  have "extract_status_from_html ?s = ''Investigating''" by blast
  moreover from extract_status_first_bold_run[of "[]"] n
  have "extract_status_from_html [] = ''Unknown''" by blast
  ultimately show ?thesis using b n by blast
qed

text \<open>
  The examples of the tests, and one bold element whose content is two words: it is
  not a run of the pattern, and the search goes on to the next one.
\<close>

lemma extract_status_examples:
  "extract_status_from_html ''<p>No status here</p>'' = ''Unknown''"
  "extract_status_from_html ''<strong>In progress</strong> then <strong>Resolved</strong>''
     = ''Resolved''"
  by code_simp+

subsection \<open>The feed parsers\<close>



text \<open>
  C4. For every text and both parsers, whatever the XML parser answers elsewhere as
  long as it rejects the empty text: the parser raises \<open>FeedParseError\<close> if and only
  if the text is empty or not well-formed, and raises nothing else; a well-formed feed
  without entry or item elements gives the empty list. A failure is the exception alone,
  with no list of incidents beside it.
\<close>

theorem parsers_fail_iff_malformed:
  assumes "fromstring [] = None"
  shows "(parse_atom_feed fromstring c m = Inl FeedParseError \<longleftrightarrow> c = [] \<or> fromstring c = None)
    \<and> (parse_rss_feed fromstring c m = Inl FeedParseError \<longleftrightarrow> c = [] \<or> fromstring c = None)
    \<and> (\<forall>e. parse_atom_feed fromstring c m = Inl e \<or> parse_rss_feed fromstring c m = Inl e
          \<longrightarrow> e = FeedParseError)
    \<and> (\<forall>tree. fromstring c = Some tree \<and> findall (atom_ns @ ''entry'') tree = []
          \<longrightarrow> parse_atom_feed fromstring c m = Inr [])
    \<and> (\<forall>tree. fromstring c = Some tree \<and> findall_items tree = []
          \<longrightarrow> parse_rss_feed fromstring c m = Inr [])"
  using assms
  by (auto simp: parse_atom_feed_def parse_rss_feed_def split: option.splits)

theorem parsers_fail_iff_malformed_witness:
  "fromstring_sample [] = None
   \<and> parse_atom_feed fromstring_sample [] 100 = Inl FeedParseError
   \<and> parse_rss_feed fromstring_sample ''not valid xml <<<<'' 100 = Inl FeedParseError
   \<and> fromstring_sample ''<rss><channel></channel></rss>''
        = Some (Element ''rss'' [] None [Element ''channel'' [] None []])
   \<and> findall_items (Element ''rss'' [] None [Element ''channel'' [] None []]) = []
   \<and> parse_rss_feed fromstring_sample ''<rss><channel></channel></rss>'' 100 = Inr []"
proof -
  have e: "fromstring_sample [] = None"
    by (simp add: fromstring_sample_def three_entries_def)
  have n: "fromstring_sample ''not valid xml <<<<'' = None"
    by (simp add: fromstring_sample_def three_entries_def)
  have r: "fromstring_sample ''<rss><channel></channel></rss>''
        = Some (Element ''rss'' [] None [Element ''channel'' [] None []])"
    by (simp add: fromstring_sample_def three_entries_def)
  have f: "findall_items (Element ''rss'' [] None [Element ''channel'' [] None []]) = []"
    by (simp add: findall_items_def)
  from parsers_fail_iff_malformed[of fromstring_sample "[]" 100, OF e]
  have 1: "parse_atom_feed fromstring_sample [] 100 = Inl FeedParseError" by simp
  from parsers_fail_iff_malformed[of fromstring_sample "''not valid xml <<<<''" 100, OF e] n
  have 2: "parse_rss_feed fromstring_sample ''not valid xml <<<<'' 100 = Inl FeedParseError"
    by simp
  from parsers_fail_iff_malformed[of fromstring_sample "''<rss><channel></channel></rss>''" 100, OF e] r f
  have 3: "parse_rss_feed fromstring_sample ''<rss><channel></channel></rss>'' 100 = Inr []"
    by blast
  from e 1 2 r f 3 show ?thesis by blast
qed




subsection \<open>Service lookup\<close>

lemma find_alias_None:
  "find_alias q services = None \<longleftrightarrow> (\<forall>(k, svc) \<in> set services. q \<notin> set (get_aliases svc))"
  by (induction services) (auto split: if_splits)

lemma find_alias_first:
  assumes "\<forall>(k', s') \<in> set pre. q \<notin> set (get_aliases s')"
  shows "find_alias q (pre @ rest) = find_alias q rest"
  using assms by (induction pre) auto

text \<open>
  C3, as stated, fails for a mapping whose key or alias has a capital letter: only the
  query is lowercased, so neither the query \<^verbatim>\<open>github\<close> nor the key \<^verbatim>\<open>GitHub\<close> itself
  finds the service with the key \<^verbatim>\<open>GitHub\<close>, and \<^verbatim>\<open>gh\<close> does not find its alias
  \<^verbatim>\<open>GH\<close>.
\<close>

theorem find_service_uppercase_key:
  "(''GitHub'', capitals_svc) \<in> set [(''GitHub'', capitals_svc)]
   \<and> lower ''github'' = lower ''GitHub''
   \<and> ''GH'' \<in> set (get_aliases capitals_svc) \<and> lower ''gh'' = lower ''GH''
   \<and> find_service [(''GitHub'', capitals_svc)] ''github'' = None
   \<and> find_service [(''GitHub'', capitals_svc)] ''GitHub'' = None
   \<and> find_service [(''GitHub'', capitals_svc)] ''gh'' = None"
  by (simp add: find_service_def lower_def lower_char_def get_aliases_def capitals_svc_def)

text \<open>
  C3, amended. \<open>find_service\<close> lowercases the query and compares it exactly. For
  every mapping (a dictionary: distinct keys) and every query: if the lowercased query
  is a key, the result is that key with its descriptor; otherwise it is the first
  service, in the order of the mapping, that lists the lowercased query among its
  aliases; otherwise it is \<open>None\<close>. So a query that differs only in letter case from
  a key or an alias written in lower case resolves to that service (for an alias: when
  no key equals it and no earlier service lists it), and a query whose lowercased form
  is no key and no alias returns \<open>None\<close>.
\<close>

theorem find_service_lowercased_query:
  assumes "distinct (map fst services)"
  shows "(\<forall>k svc. (k, svc) \<in> set services \<and> lower q = k \<longrightarrow> find_service services q = Some (k, svc))
    \<and> (\<forall>pre k svc post.
          lower q \<notin> fst ` set services \<and> services = pre @ (k, svc) # post
          \<and> lower q \<in> set (get_aliases svc)
          \<and> (\<forall>(k', s') \<in> set pre. lower q \<notin> set (get_aliases s'))
          \<longrightarrow> find_service services q = Some (k, svc))
    \<and> (lower q \<notin> fst ` set services
          \<and> (\<forall>(k', s') \<in> set services. lower q \<notin> set (get_aliases s'))
          \<longrightarrow> find_service services q = None)"
proof (intro conjI allI impI)
  fix k svc assume "(k, svc) \<in> set services \<and> lower q = k"
  then have "map_of services (lower q) = Some svc"
    using assms by simp
  then show "find_service services q = Some (k, svc)"
    using \<open>(k, svc) \<in> set services \<and> lower q = k\<close> by (simp add: find_service_def)
next
  fix pre k svc post
  assume a: "lower q \<notin> fst ` set services \<and> services = pre @ (k, svc) # post
          \<and> lower q \<in> set (get_aliases svc)
          \<and> (\<forall>(k', s') \<in> set pre. lower q \<notin> set (get_aliases s'))"
  then have n: "map_of services (lower q) = None"
    using map_of_eq_None_iff by metis
  from a have "find_alias (lower q) services = find_alias (lower q) ((k, svc) # post)"
    using find_alias_first by blast
  with a have "find_alias (lower q) services = Some (k, svc)" by simp
  with n show "find_service services q = Some (k, svc)"
    by (simp add: find_service_def)
next
  assume a: "lower q \<notin> fst ` set services
          \<and> (\<forall>(k', s') \<in> set services. lower q \<notin> set (get_aliases s'))"
  then have "map_of services (lower q) = None"
    using map_of_eq_None_iff by metis
  moreover from a have "find_alias (lower q) services = None"
    by (simp add: find_alias_None)
  ultimately show "find_service services q = None"
    by (simp add: find_service_def)
qed

theorem find_service_lowercased_query_witness:
  "distinct (map fst [(''claude'', claude_svc), (''github'', github_svc)])
   \<and> lower ''GitHub'' = ''github''
   \<and> find_service [(''claude'', claude_svc), (''github'', github_svc)] ''GitHub''
       = Some (''github'', github_svc)
   \<and> lower ''GH'' \<in> set (get_aliases github_svc)
   \<and> find_service [(''claude'', claude_svc), (''github'', github_svc)] ''GH''
       = Some (''github'', github_svc)
   \<and> find_service [(''claude'', claude_svc), (''github'', github_svc)] ''unknown-service'' = None"
proof -
  let ?S = "[(''claude'', claude_svc), (''github'', github_svc)]"
  have d: "distinct (map fst ?S)" by simp
  have l1: "lower ''GitHub'' = ''github''" by (simp add: lower_def lower_char_def)
  have l2: "lower ''GH'' = ''gh''" by (simp add: lower_def lower_char_def)
  have l3: "lower ''unknown-service'' = ''unknown-service''" by (simp add: lower_def lower_char_def)
  note T = find_service_lowercased_query[OF d]
  from T[of "''GitHub''"] l1
  have 1: "find_service ?S ''GitHub'' = Some (''github'', github_svc)" by simp
  have a: "lower ''GH'' \<in> set (get_aliases github_svc)"
    by (simp add: l2 get_aliases_def github_svc_def)
  have "lower ''GH'' \<notin> fst ` set ?S \<and> ?S = [(''claude'', claude_svc)] @ (''github'', github_svc) # []
          \<and> lower ''GH'' \<in> set (get_aliases github_svc)
          \<and> (\<forall>(k', s') \<in> set [(''claude'', claude_svc)]. lower ''GH'' \<notin> set (get_aliases s'))"
    by (simp add: l2 get_aliases_def github_svc_def claude_svc_def)
  with T[of "''GH''"]
  have 2: "find_service ?S ''GH'' = Some (''github'', github_svc)" by blast
  have "lower ''unknown-service'' \<notin> fst ` set ?S
          \<and> (\<forall>(k', s') \<in> set ?S. lower ''unknown-service'' \<notin> set (get_aliases s'))"
    by (simp add: l3 get_aliases_def github_svc_def claude_svc_def)
  with T[of "''unknown-service''"]
  have 3: "find_service ?S ''unknown-service'' = None" by blast
  from d l1 1 a 2 3 show ?thesis by blast
qed

subsection \<open>The cache\<close>

lemma universal_newlines_no_CR: "CHR 0x0D \<notin> set (universal_newlines s)"
  by (induction s rule: universal_newlines.induct) auto

lemma universal_newlines_id: "CHR 0x0D \<notin> set s \<Longrightarrow> universal_newlines s = s"
  by (induction s rule: universal_newlines.induct) auto

lemma read_text_idem: "read_text (read_text s) = read_text s"
  by (simp add: read_text_def universal_newlines_id universal_newlines_no_CR)

lemma get_store_same:
  "FeedCache_get (FeedCache_store t cache key text e) key
     = Some \<lparr>content = read_text text, etag = e, fetched_at = t\<rparr>"
  by (simp add: FeedCache_get_def FeedCache_store_def)

lemma get_store_other:
  "k \<noteq> key \<Longrightarrow> FeedCache_get (FeedCache_store t cache key text e) k = FeedCache_get cache k"
  by (simp add: FeedCache_get_def FeedCache_store_def split: option.splits)

lemma get_store_without_CR:
  "CHR 0x0D \<notin> set text \<Longrightarrow>
   FeedCache_get (FeedCache_store t cache key text e) key
     = Some \<lparr>content = text, etag = e, fetched_at = t\<rparr>"
  by (simp add: get_store_same read_text_def universal_newlines_id)

lemma cache_paired_init: "cache_paired FeedCache_init"
  by (simp add: cache_paired_def FeedCache_init_def)

lemma cache_paired_store:
  "cache_paired cache \<Longrightarrow> cache_paired (FeedCache_store t cache key text e)"
  by (simp add: cache_paired_def FeedCache_store_def)

lemma cache_paired_get_None:
  "cache_paired cache \<Longrightarrow> FeedCache_get cache key = None \<Longrightarrow> meta_path cache key = None"
proof -
  assume p: "cache_paired cache" and g: "FeedCache_get cache key = None"
  show "meta_path cache key = None"
  proof (cases "content_path cache key")
    case None
    then have "key \<notin> dom (content_path cache)" by (simp add: domIff)
    with p have "key \<notin> dom (meta_path cache)" by (simp add: cache_paired_def)
    then show ?thesis by (simp add: domIff)
  next
    case (Some f)
    with g show ?thesis
      by (simp add: FeedCache_get_def split: option.splits)
  qed
qed

text \<open>
  C8. The freshness boundary is half-open. \<open>get_if_fresh\<close> returns nothing whenever
  the age \<open>now - fetched_at\<close> is at least \<open>max_age\<close>, so also when it is exactly
  \<open>max_age\<close>, and returns the entry when the age is less; it returns nothing when
  \<open>FeedCache_get\<close> does. \<open>is_fresh\<close> is false when the key has no metadata file,
  and so, in a directory where every key has both files or neither, when
  \<open>FeedCache_get\<close> finds no entry. After a store at the clock reading \<open>t_store\<close>, at
  a reading \<open>t_read\<close> that is not earlier, \<open>is_fresh\<close> with the maximal age 0 is
  false; with less than 60 seconds between the two readings, \<open>is_fresh\<close> with the
  maximal age 60 is true.
\<close>

theorem cache_freshness_half_open:
  "(\<forall>cached. FeedCache_get cache key = Some cached \<and> now - fetched_at cached \<ge> of_int max_age
        \<longrightarrow> get_if_fresh now cache key max_age = None)
   \<and> (\<forall>cached. FeedCache_get cache key = Some cached \<and> now - fetched_at cached < of_int max_age
        \<longrightarrow> get_if_fresh now cache key max_age = Some cached)
   \<and> (FeedCache_get cache key = None \<longrightarrow> get_if_fresh now cache key max_age = None)
   \<and> (meta_path cache key = None \<longrightarrow> \<not> is_fresh now cache key max_age)
   \<and> (cache_paired cache \<and> FeedCache_get cache key = None \<longrightarrow> \<not> is_fresh now cache key max_age)
   \<and> (t_store \<le> t_read \<longrightarrow> \<not> is_fresh t_read (FeedCache_store t_store cache key body e) key 0)
   \<and> (t_store \<le> t_read \<and> t_read - t_store < 60 \<longrightarrow> is_fresh t_read (FeedCache_store t_store cache key body e) key 60)"
proof (intro conjI allI impI)
  fix cached
  assume "FeedCache_get cache key = Some cached \<and> now - fetched_at cached \<ge> of_int max_age"
  then show "get_if_fresh now cache key max_age = None"
    by (simp add: get_if_fresh_def)
next
  fix cached
  assume "FeedCache_get cache key = Some cached \<and> now - fetched_at cached < of_int max_age"
  then show "get_if_fresh now cache key max_age = Some cached"
    by (simp add: get_if_fresh_def)
next
  assume "FeedCache_get cache key = None"
  then show "get_if_fresh now cache key max_age = None"
    by (simp add: get_if_fresh_def)
next
  assume "meta_path cache key = None"
  then show "\<not> is_fresh now cache key max_age"
    by (simp add: is_fresh_def)
next
  assume "cache_paired cache \<and> FeedCache_get cache key = None"
  then have "meta_path cache key = None"
    using cache_paired_get_None by blast
  then show "\<not> is_fresh now cache key max_age"
    by (simp add: is_fresh_def)
next
  assume "t_store \<le> t_read"
  then show "\<not> is_fresh t_read (FeedCache_store t_store cache key body e) key 0"
    by (simp add: is_fresh_def FeedCache_store_def)
next
  assume "t_store \<le> t_read \<and> t_read - t_store < 60"
  then show "is_fresh t_read (FeedCache_store t_store cache key body e) key 60"
    by (simp add: is_fresh_def FeedCache_store_def)
qed

theorem cache_freshness_half_open_witness:
  "FeedCache_get (FeedCache_store 1000 FeedCache_init ''claude'' ''<feed>test</feed>'' None) ''claude''
     = Some \<lparr>content = ''<feed>test</feed>'', etag = None, fetched_at = 1000\<rparr>
   \<and> get_if_fresh 1060 (FeedCache_store 1000 FeedCache_init ''claude'' ''<feed>test</feed>'' None)
        ''claude'' 60 = None
   \<and> get_if_fresh 1059 (FeedCache_store 1000 FeedCache_init ''claude'' ''<feed>test</feed>'' None)
        ''claude'' 60
       = Some \<lparr>content = ''<feed>test</feed>'', etag = None, fetched_at = 1000\<rparr>
   \<and> cache_paired FeedCache_init \<and> FeedCache_get FeedCache_init ''missing'' = None
   \<and> \<not> is_fresh 1000 FeedCache_init ''missing'' 60
   \<and> \<not> is_fresh 1000 (FeedCache_store 1000 FeedCache_init ''claude'' ''<feed>test</feed>'' None)
          ''claude'' 0
   \<and> is_fresh 1000 (FeedCache_store 1000 FeedCache_init ''claude'' ''<feed>test</feed>'' None)
          ''claude'' 60"
proof -
  let ?c = "FeedCache_store 1000 FeedCache_init ''claude'' ''<feed>test</feed>'' None"
  let ?e = "\<lparr>content = ''<feed>test</feed>'', etag = None, fetched_at = 1000\<rparr>"
  have g: "FeedCache_get ?c ''claude'' = Some ?e"
    by (simp add: FeedCache_get_def FeedCache_store_def read_text_def)
  have p: "cache_paired FeedCache_init"
    by (simp add: cache_paired_def FeedCache_init_def)
  have m: "FeedCache_get FeedCache_init ''missing'' = None"
    by (simp add: FeedCache_get_def FeedCache_init_def)
  note T1 = cache_freshness_half_open[where cache = ?c and key = "''claude''" and now = 1060
      and max_age = 60]
  note T2 = cache_freshness_half_open[where cache = ?c and key = "''claude''" and now = 1059
      and max_age = 60]
  note T3 = cache_freshness_half_open[where cache = FeedCache_init and key = "''missing''"
      and now = 1000 and max_age = 60]
  note T4 = cache_freshness_half_open[where cache = FeedCache_init and key = "''claude''"
      and t_store = 1000 and t_read = 1000 and body = "''<feed>test</feed>''" and e = None]
  from T1 g have 1: "get_if_fresh 1060 ?c ''claude'' 60 = None" by simp
  from T2 g have 2: "get_if_fresh 1059 ?c ''claude'' 60 = Some ?e" by simp
  from T3 p m have 3: "\<not> is_fresh 1000 FeedCache_init ''missing'' 60" by blast
  from T4 have 5: "\<not> is_fresh 1000 ?c ''claude'' 0" and 6: "is_fresh 1000 ?c ''claude'' 60"
    by simp_all
  from g 1 2 p m 3 5 6 show ?thesis by blast
qed

text \<open>
  C9 fails on the code for a content with a carriage return. The content
  \<^verbatim>\<open>a\r\nb\<close> is stored with an ETag; \<open>FeedCache_get\<close> then returns the ETag as
  stored and the content \<^verbatim>\<open>a\nb\<close>: reading the file in text mode has translated the
  line end. By \<open>get_store_without_CR\<close> the round trip is exact for every content
  without a carriage return, and by \<open>get_store_same\<close> a store replaces the entry of its
  key whatever was there.
\<close>

theorem cache_roundtrip_carriage_return:
  "FeedCache_get
     (FeedCache_store 1000 FeedCache_init ''claude''
        [CHR ''a'', CHR 0x0D, CHR 0x0A, CHR ''b''] (Some ''abc123''))
     ''claude''
   = Some \<lparr>content = [CHR ''a'', CHR 0x0A, CHR ''b''], etag = Some ''abc123'', fetched_at = 1000\<rparr>"
  by (simp add: FeedCache_get_def FeedCache_store_def read_text_def)

subsection \<open>Fetching\<close>


lemma fetch_feed_http_error:
  assumes "(case cache of None \<Rightarrow> None
            | Some c \<Rightarrow> get_if_fresh t_fresh c (resolve_key cache_key url) max_age) = None"
    and "urlopen (build_request url (cached_etag_of cache (resolve_key cache_key url)))
           = Inl (HTTPError code)"
  shows "fetch_feed urlopen to_int decode t_fresh t_store url cache cache_key max_age max_size
    = (if code = 304 then
         (case cache of
            None \<Rightarrow> (Inl (HTTPError code), cache)
          | Some c \<Rightarrow>
              (case FeedCache_get c (resolve_key cache_key url) of
                 Some cached \<Rightarrow>
                   (Inr (content cached),
                    Some (FeedCache_store t_store c (resolve_key cache_key url) (content cached)
                           (cached_etag_of cache (resolve_key cache_key url))))
               | None \<Rightarrow> (Inl (HTTPError code), cache)))
       else (Inl (HTTPError code), cache))"
  using assms by (simp add: fetch_feed_def Let_def)




text \<open>
  C7. A fetch that reaches the transport and is answered with the HTTP error 304. If
  there is a cache with an entry for the resolved key, \<open>fetch_feed\<close> stores the
  content of that entry again under the key, stamped with the clock reading of the
  store, and returns that content; the entry then read back has this content and this
  time, and is fresh at every reading less than the maximal age after the store. If
  there is no cache, or no entry for the key, the error 304 is raised to the caller and
  the cache is as it was.
\<close>

theorem fetch_feed_not_modified:
  assumes "(case cache of None \<Rightarrow> None
            | Some c \<Rightarrow> get_if_fresh t_fresh c (resolve_key cache_key url) max_age) = None"
    and "urlopen (build_request url (cached_etag_of cache (resolve_key cache_key url)))
           = Inl (HTTPError 304)"
  shows "(\<forall>c cached. cache = Some c \<and> FeedCache_get c (resolve_key cache_key url) = Some cached \<longrightarrow>
            fetch_feed urlopen to_int decode t_fresh t_store url cache cache_key max_age max_size
              = (Inr (content cached),
                 Some (FeedCache_store t_store c (resolve_key cache_key url) (content cached)
                         (cached_etag_of cache (resolve_key cache_key url))))
            \<and> FeedCache_get
                 (FeedCache_store t_store c (resolve_key cache_key url) (content cached)
                    (cached_etag_of cache (resolve_key cache_key url)))
                 (resolve_key cache_key url)
              = Some \<lparr>content = content cached,
                      etag = cached_etag_of cache (resolve_key cache_key url),
                      fetched_at = t_store\<rparr>
            \<and> (\<forall>t a. t - t_store < of_int a \<longrightarrow>
                  get_if_fresh t
                    (FeedCache_store t_store c (resolve_key cache_key url) (content cached)
                       (cached_etag_of cache (resolve_key cache_key url)))
                    (resolve_key cache_key url) a \<noteq> None))
     \<and> (cache = None \<or> (\<exists>c. cache = Some c \<and> FeedCache_get c (resolve_key cache_key url) = None)
          \<longrightarrow> fetch_feed urlopen to_int decode t_fresh t_store url cache cache_key max_age max_size
                = (Inl (HTTPError 304), cache))"
proof -
  let ?key = "resolve_key cache_key url"
  have F: "fetch_feed urlopen to_int decode t_fresh t_store url cache cache_key max_age max_size
    = (if (304::int) = 304 then
         (case cache of
            None \<Rightarrow> (Inl (HTTPError 304), cache)
          | Some c \<Rightarrow>
              (case FeedCache_get c ?key of
                 Some cached \<Rightarrow>
                   (Inr (content cached),
                    Some (FeedCache_store t_store c ?key (content cached)
                           (cached_etag_of cache ?key)))
               | None \<Rightarrow> (Inl (HTTPError 304), cache)))
       else (Inl (HTTPError 304), cache))"
    by (rule fetch_feed_http_error, rule assms(1), rule assms(2))
  show ?thesis
  proof (intro conjI allI impI)
    fix c cached
    assume a: "cache = Some c \<and> FeedCache_get c ?key = Some cached"
    with F show "fetch_feed urlopen to_int decode t_fresh t_store url cache cache_key max_age max_size
              = (Inr (content cached),
                 Some (FeedCache_store t_store c ?key (content cached) (cached_etag_of cache ?key)))"
      by simp
    from a have r: "read_text (content cached) = content cached"
      by (auto simp: FeedCache_get_def read_text_idem split: option.splits)
    then show g: "FeedCache_get
                 (FeedCache_store t_store c ?key (content cached) (cached_etag_of cache ?key)) ?key
              = Some \<lparr>content = content cached, etag = cached_etag_of cache ?key,
                      fetched_at = t_store\<rparr>"
      by (simp add: get_store_same)
    fix t :: real and a :: int
    assume "t - t_store < of_int a"
    with g show "get_if_fresh t
                    (FeedCache_store t_store c ?key (content cached) (cached_etag_of cache ?key))
                    ?key a \<noteq> None"
      by (simp add: get_if_fresh_def)
  next
    assume "cache = None \<or> (\<exists>c. cache = Some c \<and> FeedCache_get c ?key = None)"
    with F show "fetch_feed urlopen to_int decode t_fresh t_store url cache cache_key max_age max_size
                = (Inl (HTTPError 304), cache)"
      by auto
  qed
qed

theorem fetch_feed_not_modified_witness:
  "get_if_fresh 100 stale_cache (resolve_key (Some ''test'') ''https://example.com/feed.atom'') 60 = None
   \<and> FeedCache_get stale_cache ''test''
       = Some \<lparr>content = ''<feed>cached</feed>'', etag = Some ''abc123'', fetched_at = 0\<rparr>
   \<and> fetch_feed (\<lambda>req. Inl (HTTPError 304)) to_int_sample (\<lambda>b. None) 100 101
        ''https://example.com/feed.atom'' (Some stale_cache) (Some ''test'') 60 MAX_FEED_SIZE_BYTES
       = (Inr ''<feed>cached</feed>'',
          Some (FeedCache_store 101 stale_cache ''test'' ''<feed>cached</feed>'' (Some ''abc123'')))
   \<and> get_if_fresh 102
        (FeedCache_store 101 stale_cache ''test'' ''<feed>cached</feed>'' (Some ''abc123''))
        ''test'' 60 \<noteq> None
   \<and> fetch_feed (\<lambda>req. Inl (HTTPError 304)) to_int_sample (\<lambda>b. None) 100 101
        ''https://example.com/feed.atom'' None (Some ''test'') 60 MAX_FEED_SIZE_BYTES
       = (Inl (HTTPError 304), None)"
proof -
  let ?url = "''https://example.com/feed.atom''"
  let ?e = "\<lparr>content = ''<feed>cached</feed>'', etag = Some ''abc123'', fetched_at = 0\<rparr>"
  have k: "resolve_key (Some ''test'') ?url = ''test''"
    by (simp add: resolve_key_def)
  have g: "FeedCache_get stale_cache ''test'' = Some ?e"
    by (simp add: FeedCache_get_def stale_cache_def FeedCache_store_def read_text_def)
  have s: "get_if_fresh 100 stale_cache (resolve_key (Some ''test'') ?url) 60 = None"
    by (simp add: get_if_fresh_def g k)
  have c: "cached_etag_of (Some stale_cache) ''test'' = Some ''abc123''"
    by (simp add: cached_etag_of_def g)
  note T = fetch_feed_not_modified[where cache = "Some stale_cache" and t_fresh = 100
        and cache_key = "Some ''test''" and url = ?url and max_age = 60
        and urlopen = "\<lambda>req. Inl (HTTPError 304)" and to_int = to_int_sample
        and decode = "\<lambda>b. None" and t_store = 101 and max_size = MAX_FEED_SIZE_BYTES]
  from T s g k c
  have 1: "fetch_feed (\<lambda>req. Inl (HTTPError 304)) to_int_sample (\<lambda>b. None) 100 101
        ?url (Some stale_cache) (Some ''test'') 60 MAX_FEED_SIZE_BYTES
       = (Inr ''<feed>cached</feed>'',
          Some (FeedCache_store 101 stale_cache ''test'' ''<feed>cached</feed>'' (Some ''abc123'')))"
    by simp
  from T s g k c
  have 2: "get_if_fresh 102
        (FeedCache_store 101 stale_cache ''test'' ''<feed>cached</feed>'' (Some ''abc123''))
        ''test'' 60 \<noteq> None"
    by simp
  from fetch_feed_not_modified[where cache = None and cache_key = "Some ''test''" and url = ?url
        and urlopen = "\<lambda>req. Inl (HTTPError 304)" and to_int = to_int_sample
        and decode = "\<lambda>b. None" and t_fresh = 100 and t_store = 101 and max_age = 60
        and max_size = MAX_FEED_SIZE_BYTES]
  have 3: "fetch_feed (\<lambda>req. Inl (HTTPError 304)) to_int_sample (\<lambda>b. None) 100 101
        ?url None (Some ''test'') 60 MAX_FEED_SIZE_BYTES = (Inl (HTTPError 304), None)"
    by simp
  from s g 1 2 3 show ?thesis by simp
qed

subsection \<open>Timestamps and recency\<close>

text \<open>
  What holds of \<open>parse_timestamp\<close> for every behaviour of the two library parsers:
  the empty text gives \<open>None\<close>; the ISO 8601 parser is tried first, on the text with a
  final \<^verbatim>\<open>Z\<close> replaced by \<^verbatim>\<open>+00:00\<close>, and its answer is returned; when it raises
  \<^verbatim>\<open>ValueError\<close> the RFC 822 parser is tried on the same changed text; when that
  raises \<^verbatim>\<open>ValueError\<close> or \<^verbatim>\<open>TypeError\<close> the result is \<open>None\<close>. If the two
  parsers raise nothing else, \<open>parse_timestamp\<close> raises nothing.
\<close>

lemma parse_timestamp_empty: "parse_timestamp fromisoformat parsedate [] = Inr None"
  by (simp add: parse_timestamp_def)

lemma parse_timestamp_iso_first:
  "timestamp \<noteq> [] \<Longrightarrow> fromisoformat (handle_Z_suffix timestamp) = Inr d \<Longrightarrow>
   parse_timestamp fromisoformat parsedate timestamp = Inr (Some d)"
  by (simp add: parse_timestamp_def)

lemma parse_timestamp_rfc_second:
  "timestamp \<noteq> [] \<Longrightarrow> fromisoformat (handle_Z_suffix timestamp) = Inl ValueError \<Longrightarrow>
   parsedate (handle_Z_suffix timestamp) = Inr d \<Longrightarrow>
   parse_timestamp fromisoformat parsedate timestamp = Inr (Some d)"
  by (simp add: parse_timestamp_def is_ValueError_def)

lemma parse_timestamp_both_fail:
  "timestamp \<noteq> [] \<Longrightarrow> fromisoformat (handle_Z_suffix timestamp) = Inl ValueError \<Longrightarrow>
   parsedate (handle_Z_suffix timestamp) = Inl e \<Longrightarrow> e = ValueError \<or> e = TypeError \<Longrightarrow>
   parse_timestamp fromisoformat parsedate timestamp = Inr None"
  by (auto simp: parse_timestamp_def is_ValueError_def)

lemma parse_timestamp_returns:
  assumes "\<And>s e. fromisoformat s = Inl e \<Longrightarrow> e = ValueError"
    and "\<And>s e. parsedate s = Inl e \<Longrightarrow> e = ValueError \<or> e = TypeError"
  shows "\<exists>r. parse_timestamp fromisoformat parsedate timestamp = Inr r"
  using assms
  by (auto simp: parse_timestamp_def is_ValueError_def Let_def split: sum.splits)

lemma handle_Z_suffix_example: "handle_Z_suffix ''2026-02-04T17:06:50Z'' = ''2026-02-04T17:06:50+00:00''"
  by (simp add: handle_Z_suffix_def)

text \<open>
  C2 fails on the code. \<open>parse_timestamp\<close> returns the \<^verbatim>\<open>datetime\<close> of the library
  parser as it is: for the ISO 8601 text \<^verbatim>\<open>2026-02-04T17:06:50\<close>, which carries no
  offset, and for the RFC 822 date with the zone \<^verbatim>\<open>-0000\<close>, that is a naive
  \<^verbatim>\<open>datetime\<close>, not a timezone-aware instant. And for the RFC 822 date whose zone has
  24 digits, \<^verbatim>\<open>parsedate_to_datetime\<close> raises \<^verbatim>\<open>OverflowError\<close>, which the handler
  for \<^verbatim>\<open>ValueError\<close> and \<^verbatim>\<open>TypeError\<close> does not catch: \<open>parse_timestamp\<close> raises.
\<close>

theorem parse_timestamp_naive_or_raising:
  "parse_timestamp fromisoformat_sample parsedate_sample ''2026-02-04T17:06:50''
     = Inr (Some (Naive 1770224810000000))
   \<and> parse_timestamp fromisoformat_sample parsedate_sample ''Wed, 04 Feb 2026 17:06:50 -0000''
     = Inr (Some (Naive 1770224810000000))
   \<and> parse_timestamp fromisoformat_sample parsedate_sample
        ''Wed, 04 Feb 2026 17:06:50 +999999999999999999999999''
     = Inl OverflowError"
  by (simp add: parse_timestamp_def handle_Z_suffix_def fromisoformat_sample_def
      parsedate_sample_def is_ValueError_def)

lemma parse_timestamp_sample_aware:
  "parse_timestamp fromisoformat_sample parsedate_sample ''2026-02-04T17:06:50Z''
     = Inr (Some (Aware 1770224810000000))
   \<and> parse_timestamp fromisoformat_sample parsedate_sample ''Wed, 04 Feb 2026 17:06:50 +0000''
     = Inr (Some (Aware 1770224810000000))
   \<and> parse_timestamp fromisoformat_sample parsedate_sample ''yesterday'' = Inr None"
  by (simp add: parse_timestamp_def handle_Z_suffix_def fromisoformat_sample_def
      parsedate_sample_def is_ValueError_def)

text \<open>
  What holds of the classifier for every behaviour of the library parsers: an incident
  whose \<open>published\<close> text is empty, or for which \<open>parse_timestamp\<close> returns
  \<open>None\<close>, is not recent and not active; for an aware timestamp, the incident is recent
  if and only if the time since then is less than \<open>hours * 3600\<close> seconds.
\<close>

lemma is_recent_incident_unparseable:
  assumes "parse_timestamp fromisoformat parsedate (published incident) = Inr None"
  shows "is_recent_incident fromisoformat parsedate now incident hours = Inr False"
    and "is_likely_active fromisoformat parsedate now incident hours = Inr False"
  using assms by (simp_all add: is_recent_incident_def is_likely_active_def)

lemma is_recent_incident_empty:
  assumes "published incident = []"
  shows "is_recent_incident fromisoformat parsedate now incident hours = Inr False"
    and "is_likely_active fromisoformat parsedate now incident hours = Inr False"
  using assms by (simp_all add: is_recent_incident_def is_likely_active_def parse_timestamp_def)

lemma is_recent_incident_aware:
  assumes "parse_timestamp fromisoformat parsedate (published incident) = Inr (Some (Aware t))"
  shows "is_recent_incident fromisoformat parsedate now incident hours
           = Inr (now - t < hours * 3600 * 1000000)"
  using assms by (simp add: is_recent_incident_def)

lemma is_recent_incident_naive:
  assumes "parse_timestamp fromisoformat parsedate (published incident) = Inr (Some (Naive w))"
  shows "is_recent_incident fromisoformat parsedate now incident hours = Inl TypeError"
    and "is_likely_active fromisoformat parsedate now incident hours = Inl TypeError"
  using assms by (simp_all add: is_recent_incident_def is_likely_active_def)

text \<open>
  C10 fails on the code for an incident whose timestamp parses to a naive
  \<^verbatim>\<open>datetime\<close>: with \<open>published\<close> the text \<^verbatim>\<open>2026-02-04T17:06:50\<close>, an hour before
  \<open>now\<close>, \<open>is_recent_incident\<close> and \<open>is_likely_active\<close> raise \<^verbatim>\<open>TypeError\<close>
  where the claim gives them the value true; the same timestamp with a final \<^verbatim>\<open>Z\<close>
  is recent.
\<close>

theorem is_recent_incident_naive_raises:
  "is_recent_incident fromisoformat_sample parsedate_sample 1770228410000000
     \<lparr>title = ''Elevated errors on Claude models'', link = [], status = ''Investigating'',
      published = ''2026-02-04T17:06:50''\<rparr> 4
     = Inl TypeError
   \<and> is_likely_active fromisoformat_sample parsedate_sample 1770228410000000
     \<lparr>title = ''Elevated errors on Claude models'', link = [], status = ''Investigating'',
      published = ''2026-02-04T17:06:50''\<rparr> 4
     = Inl TypeError
   \<and> is_recent_incident fromisoformat_sample parsedate_sample 1770228410000000
     \<lparr>title = ''Elevated errors on Claude models'', link = [], status = ''Investigating'',
      published = ''2026-02-04T17:06:50Z''\<rparr> 4
     = Inr True"
  by (simp add: is_recent_incident_def is_likely_active_def parse_timestamp_def
      handle_Z_suffix_def fromisoformat_sample_def parsedate_sample_def is_ValueError_def)

lemma is_likely_active_sample:
  "is_likely_active fromisoformat_sample parsedate_sample 1770228410000000
     \<lparr>title = ''t'', link = [], status = ''Investigating'', published = ''2026-02-04T17:06:50Z''\<rparr> 4
     = Inr True
   \<and> is_likely_active fromisoformat_sample parsedate_sample 1770228410000000
     \<lparr>title = ''t'', link = [], status = ''Resolved'', published = ''2026-02-04T17:06:50Z''\<rparr> 4
     = Inr False"
  by (simp add: is_recent_incident_def is_likely_active_def parse_timestamp_def
      handle_Z_suffix_def fromisoformat_sample_def parsedate_sample_def is_ValueError_def
      is_likely_resolved_def RESOLVED_PATTERNS_def lower_def lower_char_def)

end
